theory Spec2Isabelle
  imports Complex_Main "HOL-Library.Word"
begin

section \<open>JavaScript strings\<close>

text \<open>
  A JavaScript string is a sequence of UTF-16 code units; \<^verbatim>\<open>length\<close> counts code
  units, and a regular expression without the \<^verbatim>\<open>u\<close> flag matches code unit by code
  unit. String literals of the source are ASCII and are written with \<open>js\<close>.
\<close>

type_synonym jschar = "16 word"
type_synonym jsstring = "jschar list"

definition js :: "string \<Rightarrow> jsstring" where
  "js s = map of_char s"

definition nl :: jsstring where
  "nl = [0x0A]"

text \<open>
  The code units that \<^verbatim>\<open>\s\<close> matches and that \<^verbatim>\<open>String.prototype.trim\<close> strips
  (ECMAScript WhiteSpace and LineTerminator): TAB, LF, VT, FF, CR, SP, NBSP, U+1680,
  U+2000..U+200A, LS, PS, U+202F, U+205F, U+3000 and U+FEFF.
\<close>

definition isWhiteSpace :: "jschar \<Rightarrow> bool" where
  "isWhiteSpace c \<longleftrightarrow>
     List.member [0x09, 0x0A, 0x0B, 0x0C, 0x0D, 0x20, 0xA0, 0x1680, 0x2028, 0x2029,
                  0x202F, 0x205F, 0x3000, 0xFEFF] c
     \<or> (0x2000 \<le> c \<and> c \<le> 0x200A)"

definition trim :: "jsstring \<Rightarrow> jsstring" where
  "trim s = rev (dropWhile isWhiteSpace (rev (dropWhile isWhiteSpace s)))"

text \<open>
  A value read from the request or the environment may be \<^verbatim>\<open>undefined\<close> (\<open>None\<close>).
  \<open>falsy\<close> is the test of \<^verbatim>\<open>!v\<close> and of \<^verbatim>\<open>v || w\<close>: undefined and the empty
  string are falsy. \<open>template_value\<close> is what a template literal prints for a hole.
\<close>

definition falsy :: "jsstring option \<Rightarrow> bool" where
  "falsy v = (case v of None \<Rightarrow> True | Some s \<Rightarrow> s = [])"

definition template_value :: "jsstring option \<Rightarrow> jsstring" where
  "template_value v = (case v of None \<Rightarrow> js ''undefined'' | Some s \<Rightarrow> s)"

section \<open>Regular expressions\<close>

text \<open>
  The fragment of regular expressions the source uses: a pattern anchored at both ends
  (\<^verbatim>\<open>^...$\<close>, no flags) made of pieces, each a character set taken once or one or
  more times (\<^verbatim>\<open>+\<close>). A character set is one literal code unit or a negated class
  \<^verbatim>\<open>[^...]\<close>. \<open>test\<close> tries the greedy alternative first, as the engine does.
\<close>

datatype charset = Exactly jschar | NoneOf "jschar \<Rightarrow> bool"

fun accepts :: "charset \<Rightarrow> jschar \<Rightarrow> bool" where
  "accepts (Exactly a) c = (c = a)"
| "accepts (NoneOf excluded) c = (\<not> excluded c)"

datatype piece = Once charset | OneOrMore charset

fun test :: "piece list \<Rightarrow> jsstring \<Rightarrow> bool" where
  "test [] s = (s = [])"
| "test (Once cs # ps) [] = False"
| "test (Once cs # ps) (c # s) = (accepts cs c \<and> test ps s)"
| "test (OneOrMore cs # ps) [] = False"
| "test (OneOrMore cs # ps) (c # s) =
     (accepts cs c \<and> (test (OneOrMore cs # ps) s \<or> test ps s))"

text \<open>\<^verbatim>\<open>/^[^\s@]+@[^\s@]+\.[^\s@]+$/\<close>\<close>

definition emailRegex :: "piece list" where
  "emailRegex =
     [OneOrMore (NoneOf (\<lambda>c. isWhiteSpace c \<or> c = 0x40)),
      Once (Exactly 0x40),
      OneOrMore (NoneOf (\<lambda>c. isWhiteSpace c \<or> c = 0x40)),
      Once (Exactly 0x2E),
      OneOrMore (NoneOf (\<lambda>c. isWhiteSpace c \<or> c = 0x40))]"

section \<open>Requests and responses\<close>

text \<open>
  The four fields of \<^verbatim>\<open>req.body\<close> that the route reads. A field is a string or is
  absent; bodies with fields of another JSON type are outside this model.
\<close>

record form =
  name :: "jsstring option"
  email :: "jsstring option"
  subject :: "jsstring option"
  message :: "jsstring option"

record request =
  body :: form
  ip :: "jsstring option"
  remoteAddress :: "jsstring option"

text \<open>
  The row handed to the datastore's insert, and a row as the datastore returns it
  (table \<^verbatim>\<open>contact_messages\<close>: the datastore adds \<^verbatim>\<open>id\<close> and \<^verbatim>\<open>updated_at\<close>).
\<close>

record contact_message =
  name :: jsstring
  email :: jsstring
  subject :: jsstring
  message :: jsstring
  ip_address :: "jsstring option"
  created_at :: jsstring
  status :: jsstring

record stored_row = contact_message +
  id' :: jsstring
  updated_at :: jsstring

text \<open>
  The JSON bodies the application sends. A key whose value is \<^verbatim>\<open>undefined\<close> is left
  out of the JSON text, so the optional \<^verbatim>\<open>debug\<close> key is an option. The number
  \<^verbatim>\<open>process.uptime()\<close> is only passed on.
\<close>

datatype json =
    ErrorBody string string "jsstring option"  \<comment> \<open>error, details, debug\<close>
  | SuccessBody bool string jsstring jsstring   \<comment> \<open>success, message, data.id, data.timestamp\<close>
  | LimitBody string  \<comment> \<open>error\<close>
  | NotFoundBody string jsstring  \<comment> \<open>error, details\<close>
  | HealthBody string jsstring real string jsstring string string
      \<comment> \<open>status, timestamp, uptime, database, environment, supabase_url, supabase_key\<close>
  | HealthErrorBody string jsstring real string jsstring
      \<comment> \<open>status, timestamp, uptime, database, error\<close>
  | ListBody bool "stored_row list" nat  \<comment> \<open>success, data, count\<close>

record response =
  status :: nat
  json :: json

section \<open>Validation middleware\<close>

text \<open>\<open>None\<close> is the call of \<^verbatim>\<open>next()\<close>; \<open>Some r\<close> is the response sent instead.\<close>

definition validateContactForm :: "form \<Rightarrow> response option" where
  "validateContactForm b =
     (case (form.name b, form.email b, form.subject b, form.message b) of
        (Some n, Some e, Some s, Some m) \<Rightarrow>
          if n = [] \<or> e = [] \<or> s = [] \<or> m = [] then
            Some \<lparr>status = 400, json = ErrorBody ''All fields are required''
              ''Please fill in all required fields: name, email, subject, and message.'' None\<rparr>
          else if \<not> test emailRegex e then
            Some \<lparr>status = 400, json = ErrorBody ''Invalid email format''
              ''Please provide a valid email address.'' None\<rparr>
          else if length n < 2 \<or> length n > 100 then
            Some \<lparr>status = 400, json = ErrorBody ''Invalid name length''
              ''Name must be between 2 and 100 characters.'' None\<rparr>
          else if length s < 5 \<or> length s > 200 then
            Some \<lparr>status = 400, json = ErrorBody ''Invalid subject length''
              ''Subject must be between 5 and 200 characters.'' None\<rparr>
          else if length m < 10 \<or> length m > 2000 then
            Some \<lparr>status = 400, json = ErrorBody ''Invalid message length''
              ''Message must be between 10 and 2000 characters.'' None\<rparr>
          else None
      | _ \<Rightarrow>
          Some \<lparr>status = 400, json = ErrorBody ''All fields are required''
            ''Please fill in all required fields: name, email, subject, and message.'' None\<rparr>)"

section \<open>Collaborators\<close>

record db_error =
  message :: jsstring

text \<open>
  What \<^verbatim>\<open>await supabase.from(...).insert([...]).select()\<close> gives: an object with
  \<^verbatim>\<open>data\<close> (the rows, or null) and \<^verbatim>\<open>error\<close> (an error object, or null), or an
  exception when the awaited call rejects.
\<close>

record insert_result =
  data :: "stored_row list option"
  error :: "db_error option"

datatype insert_outcome = Resolves insert_result | Rejects

record mail_options =
  mail_from :: "jsstring option"
  mail_to :: "jsstring option"
  mail_subject :: jsstring
  html :: jsstring

datatype dispatch = AdminMail | UserMail

datatype mail_outcome = Delivered | Failed jsstring

text \<open>
  The process environment, the runtime and the two collaborators, as the handler sees
  them during one request: the environment variables it reads, the clock
  (\<^verbatim>\<open>new Date().toISOString()\<close>), the built-ins that rest on the Unicode case
  tables (\<^verbatim>\<open>toLowerCase\<close>) and on the locale (\<^verbatim>\<open>toLocaleString\<close>), the outcome
  of the insert and of each send, and which of the two sends settles first.
\<close>

record env =
  NODE_ENV :: "jsstring option"
  SMTP_FROM :: "jsstring option"
  ADMIN_EMAIL :: "jsstring option"
  now :: jsstring
  toLowerCase :: "jsstring \<Rightarrow> jsstring"
  toLocaleString :: "jsstring \<Rightarrow> jsstring"
  db_insert :: "contact_message \<Rightarrow> insert_outcome"
  sendMail :: "mail_options \<Rightarrow> mail_outcome"
  settles_first :: dispatch

section \<open>Email payloads\<close>

definition adminMailOptions ::
  "env \<Rightarrow> jsstring \<Rightarrow> jsstring option \<Rightarrow> jsstring \<Rightarrow> jsstring \<Rightarrow> jsstring \<Rightarrow> jsstring
     \<Rightarrow> mail_options" where
  \<open>adminMailOptions env ts clientIp n e s m =
    \<lparr>mail_from = SMTP_FROM env,
     mail_to = ADMIN_EMAIL env,
     mail_subject = js ''New Contact Form Submission: '' @ s,
     html = concat [
      nl,
      js ''          <div style="font-family: Arial, sans-serif; max-width: 600px; margin: 0 auto;">'',
      nl,
      js ''            <h2 style="color: #4361ee;">New Contact Form Submission</h2>'',
      nl,
      js ''            <div style="background: #f8f9fa; padding: 20px; border-radius: 8px; margin: 20px 0;">'',
      nl,
      js ''              <p><strong>Name:</strong> '',
      n,
      js ''</p>'',
      nl,
      js ''              <p><strong>Email:</strong> '',
      e,
      js ''</p>'',
      nl,
      js ''              <p><strong>Subject:</strong> '',
      s,
      js ''</p>'',
      nl,
      js ''              <p><strong>Time:</strong> '',
      toLocaleString env ts,
      js ''</p>'',
      nl,
      js ''              <p><strong>IP:</strong> '',
      template_value clientIp,
      js ''</p>'',
      nl,
      js ''            </div>'',
      nl,
      js ''            <div style="background: #fff; padding: 20px; border-left: 4px solid #4361ee;">'',
      nl,
      js ''              <h3>Message:</h3>'',
      nl,
      js ''              <p style="white-space: pre-wrap;">'',
      m,
      js ''</p>'',
      nl,
      js ''            </div>'',
      nl,
      js ''            <p style="color: #666; font-size: 12px; margin-top: 20px;">'',
      nl,
      js ''              This message was sent from your portfolio contact form.'',
      nl,
      js ''            </p>'',
      nl,
      js ''          </div>'',
      nl,
      js ''        '']\<rparr>\<close>

definition userMailOptions ::
  "env \<Rightarrow> jsstring \<Rightarrow> jsstring \<Rightarrow> jsstring \<Rightarrow> jsstring \<Rightarrow> mail_options" where
  \<open>userMailOptions env ts n e s =
    \<lparr>mail_from = SMTP_FROM env,
     mail_to = Some e,
     mail_subject = js ''Thank you for contacting HafTech - '' @ s,
     html = concat [
      nl,
      js ''          <div style="font-family: Arial, sans-serif; max-width: 600px; margin: 0 auto;">'',
      nl,
      js ''            <h2 style="color: #4361ee;">Thank You for Your Message!</h2>'',
      nl,
      js ''            <p>Hi '',
      n,
      js '',</p>'',
      nl,
      js ''            <p>Thank you for reaching out to us. I've received your message about "<strong>'',
      s,
      js ''</strong>" and will get back to you within 24 hours.</p>'',
      nl,
      js ''            '',
      nl,
      js ''            <div style="background: #f8f9fa; padding: 20px; border-radius: 8px; margin: 20px 0;">'',
      nl,
      js ''              <h3>Your Message Summary:</h3>'',
      nl,
      js ''              <p><strong>Subject:</strong> '',
      s,
      js ''</p>'',
      nl,
      js ''              <p><strong>Sent:</strong> '',
      toLocaleString env ts,
      js ''</p>'',
      nl,
      js ''            </div>'',
      nl,
      js ''            '',
      nl,
      js ''            <p>In the meantime, feel free to:</p>'',
      nl,
      js ''            <ul>'',
      nl,
      js ''              <li>Check out my <a href="https://your-portfolio.vercel.app/#portfolio" style="color: #4361ee;">latest projects</a></li>'',
      nl,
      js ''              <li>Connect with me on <a href="https://wa.me/+2348128653553" style="color: #25d366;">WhatsApp</a> for immediate assistance</li>'',
      nl,
      js ''              <li>Follow me on <a href="https://linkedin.com/in/haftech" style="color: #0077b5;">LinkedIn</a></li>'',
      nl,
      js ''            </ul>'',
      nl,
      js ''            '',
      nl,
      js ''            <p>Looking forward to discussing your project!</p>'',
      nl,
      js ''            '',
      nl,
      js ''            <div style="margin-top: 30px; padding-top: 20px; border-top: 1px solid #eee;">'',
      nl,
      js ''              <p><strong>Ariyo Faruq</strong><br>'',
      nl,
      js ''              CEO & Founder, HafTech<br>'',
      nl,
      js ''              <a href="mailto:contact@haftech.com" style="color: #4361ee;">contact@haftech.com</a><br>'',
      nl,
      js ''              <a href="tel:+2348128653553" style="color: #4361ee;">+234 8128 653 553</a></p>'',
      nl,
      js ''            </div>'',
      nl,
      js ''          </div>'',
      nl,
      js ''        '']\<rparr>\<close>

section \<open>Events of one request\<close>

text \<open>
  What the handler does to the outside world, in the order it happens: the insert call,
  the lines written with \<^verbatim>\<open>console.error\<close> (by their label), the creation of the mail
  transport, each call of \<^verbatim>\<open>transporter.sendMail\<close>, each settlement of a send, and
  the response.
\<close>

datatype event =
    DbInsert contact_message
  | ConsoleError string
  | CreateTransport
  | SendMail dispatch mail_options
  | Settled dispatch mail_outcome
  | Respond response

text \<open>
  \<^verbatim>\<open>await Promise.all([...])\<close> over the settlements of the pending sends, in the order
  they arrive. The await resumes when every promise has fulfilled, or at the first one
  that rejects, with its reason. The result is the settlements that have arrived when the
  await resumes, the rejection reason if any, and the settlements still to come.
\<close>

fun promise_all ::
  "(dispatch \<times> mail_outcome) list
     \<Rightarrow> (dispatch \<times> mail_outcome) list \<times> jsstring option \<times> (dispatch \<times> mail_outcome) list" where
  "promise_all [] = ([], None, [])"
| "promise_all ((d, Failed reason) # pending) = ([(d, Failed reason)], Some reason, pending)"
| "promise_all ((d, Delivered) # pending) =
     (case promise_all pending of
        (arrived, rejection, later) \<Rightarrow> ((d, Delivered) # arrived, rejection, later))"

definition settlements ::
  "env \<Rightarrow> mail_options \<Rightarrow> mail_options \<Rightarrow> (dispatch \<times> mail_outcome) list" where
  "settlements env adminMail userMail =
     (case settles_first env of
        AdminMail \<Rightarrow> [(AdminMail, sendMail env adminMail), (UserMail, sendMail env userMail)]
      | UserMail \<Rightarrow> [(UserMail, sendMail env userMail), (AdminMail, sendMail env adminMail)])"

section \<open>The contact form endpoint\<close>

definition clientIp :: "request \<Rightarrow> jsstring option" where
  "clientIp req = (if falsy (ip req) then remoteAddress req else ip req)"

definition newMessage ::
  "env \<Rightarrow> request \<Rightarrow> jsstring \<Rightarrow> jsstring \<Rightarrow> jsstring \<Rightarrow> jsstring \<Rightarrow> contact_message" where
  "newMessage env req n e s m =
     \<lparr>name = trim n,
      email = trim (toLowerCase env e),
      subject = trim s,
      message = trim m,
      ip_address = clientIp req,
      created_at = now env,
      status = js ''new''\<rparr>"

text \<open>
  The inner \<^verbatim>\<open>try\<close> block: both payloads are built, both sends are called, and the
  handler awaits \<^verbatim>\<open>Promise.all\<close>; a rejection is caught and logged. The first list is
  what has happened when the block is left, the second the settlements that arrive later.
\<close>

definition sendEmails ::
  "env \<Rightarrow> request \<Rightarrow> jsstring \<Rightarrow> jsstring \<Rightarrow> jsstring \<Rightarrow> jsstring
     \<Rightarrow> event list \<times> event list" where
  "sendEmails env req n e s m =
     (let adminMail = adminMailOptions env (now env) (clientIp req) n e s m;
          userMail = userMailOptions env (now env) n e s
      in case promise_all (settlements env adminMail userMail) of
           (arrived, rejection, later) \<Rightarrow>
             ([CreateTransport, SendMail AdminMail adminMail, SendMail UserMail userMail]
                @ map (\<lambda>(d, outcome). Settled d outcome) arrived
                @ (case rejection of None \<Rightarrow> [] | Some reason \<Rightarrow> [ConsoleError ''Email error:'']),
              map (\<lambda>(d, outcome). Settled d outcome) later))"

text \<open>The outer \<^verbatim>\<open>catch\<close>: any exception of the handler ends here.\<close>

definition catchAll :: "event list" where
  "catchAll =
     [ConsoleError ''Contact form error:'',
      Respond \<lparr>response.status = 500, json = ErrorBody ''Server error''
        ''Something went wrong. Please try again later or contact us directly.'' None\<rparr>]"

text \<open>
  The handler of \<^verbatim>\<open>POST /api/contact\<close>, which runs after the validation middleware
  has called \<^verbatim>\<open>next()\<close>. Calling \<^verbatim>\<open>trim\<close> on an absent field and reading
  \<^verbatim>\<open>data[0].id\<close> when \<^verbatim>\<open>data\<close> is null or empty throw a TypeError.
\<close>

definition contact_handler :: "env \<Rightarrow> request \<Rightarrow> event list" where
  "contact_handler env req =
     (case (form.name (body req), form.email (body req), form.subject (body req),
            form.message (body req)) of
        (Some n, Some e, Some s, Some m) \<Rightarrow>
          DbInsert (newMessage env req n e s m) #
          (case db_insert env (newMessage env req n e s m) of
             Rejects \<Rightarrow> catchAll
           | Resolves result \<Rightarrow>
               (case error result of
                  Some err \<Rightarrow>
                    [ConsoleError ''Supabase error:'', ConsoleError ''Error details:'',
                     Respond \<lparr>response.status = 500, json = ErrorBody ''Database error''
                       ''Failed to store your message. Please try again or contact us directly.''
                       (if NODE_ENV env = Some (js ''development'')
                        then Some (db_error.message err) else None)\<rparr>]
                | None \<Rightarrow>
                    (case sendEmails env req n e s m of
                       (done, later) \<Rightarrow>
                         done
                         @ (case data result of
                              Some (row # rows) \<Rightarrow>
                                [Respond \<lparr>response.status = 200, json = SuccessBody True
                                   ''Message sent successfully!'' (id' row) (now env)\<rparr>]
                            | _ \<Rightarrow> catchAll)
                         @ later)))
      | _ \<Rightarrow> catchAll)"

section \<open>The application\<close>

text \<open>
  A request as the middleware chain sees it: the route that the router selects from the
  method and the path, the URL, what the body parsers (\<^verbatim>\<open>express.json\<close>,
  \<^verbatim>\<open>express.urlencoded\<close>) made of the body, and the addresses. The body parsers
  fail (malformed or oversized body), leave \<^verbatim>\<open>req.body\<close> undefined, or set it to an
  object. Preflight \<^verbatim>\<open>OPTIONS\<close> requests, which the CORS middleware answers itself
  without a body, are not requests of this model; the other requests pass the security
  header and CORS middleware unchanged.
\<close>

datatype route = GetHealth | PostContact | GetAdminMessages | Unmatched

datatype parsed_body = ParseFailed | NoBody | Parsed form

record http_request =
  route :: route
  originalUrl :: jsstring
  parsed :: parsed_body
  ip' :: "jsstring option"
  remoteAddress' :: "jsstring option"

text \<open>
  The awaited connectivity probe of the health check: it resolves with an object whose
  \<^verbatim>\<open>error\<close> is an error object or null, or it rejects with an exception that has a
  message.
\<close>

datatype probe_outcome = ProbeResolves "db_error option" | ProbeRejects jsstring

text \<open>
  The process as the whole application sees it during one request: what the contact
  handler reads, the two further environment variables of the health check, the
  process uptime, the verdict of each rate limiter on this request, and the outcomes of
  the health probe and of the admin listing's select (an object with \<^verbatim>\<open>data\<close> and
  \<^verbatim>\<open>error\<close>, as for the insert).
\<close>

record server =
  handler_env :: env
  SUPABASE_URL :: "jsstring option"
  SUPABASE_ANON_KEY :: "jsstring option"
  uptime :: real
  limiter_allows :: bool
  contactLimiter_allows :: bool
  db_probe :: probe_outcome
  db_select_all :: insert_outcome

text \<open>The error-handling middleware, which receives what a middleware throws.\<close>

definition errorMiddleware :: "event list" where
  "errorMiddleware =
     [ConsoleError ''Server error:'',
      Respond \<lparr>response.status = 500, json = ErrorBody ''Internal server error''
        ''Something went wrong on our end.'' None\<rparr>]"

text \<open>\<^verbatim>\<open>GET /api/health\<close>\<close>

definition get_api_health :: "server \<Rightarrow> event list" where
  "get_api_health srv =
     (case db_probe srv of
        ProbeResolves err \<Rightarrow>
          [Respond \<lparr>response.status = 200, json = HealthBody ''OK'' (now (handler_env srv))
             (uptime srv)
             (case err of Some e \<Rightarrow> ''ERROR'' | None \<Rightarrow> ''CONNECTED'')
             (case NODE_ENV (handler_env srv) of
                None \<Rightarrow> js ''development''
              | Some mode \<Rightarrow> if mode = [] then js ''development'' else mode)
             (if falsy (SUPABASE_URL srv) then ''NOT_SET'' else ''SET'')
             (if falsy (SUPABASE_ANON_KEY srv) then ''NOT_SET'' else ''SET'')\<rparr>]
      | ProbeRejects exception_message \<Rightarrow>
          [ConsoleError ''Health check error:'',
           Respond \<lparr>response.status = 500, json = HealthErrorBody ''ERROR''
             (now (handler_env srv)) (uptime srv) ''ERROR'' exception_message\<rparr>])"

text \<open>
  \<^verbatim>\<open>GET /api/admin/messages\<close>. An error object is thrown, and reading
  \<^verbatim>\<open>data.length\<close> of null throws; the \<^verbatim>\<open>catch\<close> answers both.
\<close>

definition adminCatch :: "event list" where
  "adminCatch =
     [ConsoleError ''Admin messages error:'',
      Respond \<lparr>response.status = 500, json = ErrorBody ''Server error''
        ''Failed to fetch messages.'' None\<rparr>]"

definition get_api_admin_messages :: "server \<Rightarrow> event list" where
  "get_api_admin_messages srv =
     (case db_select_all srv of
        Rejects \<Rightarrow> adminCatch
      | Resolves result \<Rightarrow>
          (case error result of
             Some err \<Rightarrow> adminCatch
           | None \<Rightarrow>
               (case data result of
                  None \<Rightarrow> adminCatch
                | Some rows \<Rightarrow>
                    [Respond \<lparr>response.status = 200,
                       json = ListBody True rows (length rows)\<rparr>])))"

text \<open>
  \<^verbatim>\<open>POST /api/contact\<close>: the contact rate limiter, the validation middleware, then
  the handler. When \<^verbatim>\<open>req.body\<close> is undefined, the validation middleware throws on
  its first line and the error-handling middleware answers.
\<close>

definition contact_request :: "http_request \<Rightarrow> form \<Rightarrow> request" where
  "contact_request h b = \<lparr>body = b, ip = ip' h, remoteAddress = remoteAddress' h\<rparr>"

definition post_api_contact :: "server \<Rightarrow> http_request \<Rightarrow> event list" where
  "post_api_contact srv h =
     (if \<not> contactLimiter_allows srv then
        [Respond \<lparr>response.status = 429,
           json = LimitBody ''Too many contact form submissions, please try again later.''\<rparr>]
      else
        (case parsed h of
           Parsed b \<Rightarrow>
             (case validateContactForm b of
                Some rejection \<Rightarrow> [Respond rejection]
              | None \<Rightarrow> contact_handler (handler_env srv) (contact_request h b))
         | _ \<Rightarrow> errorMiddleware))"

text \<open>
  The middleware chain in the order of registration: the body parsers, whose failure
  goes to the error-handling middleware, the general rate limiter, the routes, and the
  handler of unmatched requests.
\<close>

definition app :: "server \<Rightarrow> http_request \<Rightarrow> event list" where
  "app srv h =
     (if parsed h = ParseFailed then errorMiddleware
      else if \<not> limiter_allows srv then
        [Respond \<lparr>response.status = 429,
           json = LimitBody ''Too many requests from this IP, please try again later.''\<rparr>]
      else
        (case route h of
           GetHealth \<Rightarrow> get_api_health srv
         | PostContact \<Rightarrow> post_api_contact srv h
         | GetAdminMessages \<Rightarrow> get_api_admin_messages srv
         | Unmatched \<Rightarrow>
             [Respond \<lparr>response.status = 404, json = NotFoundBody ''Endpoint not found''
                (js ''The requested endpoint '' @ originalUrl h @ js '' does not exist.'')\<rparr>]))"

subsection \<open>Reading a trace\<close>

fun responses :: "event list \<Rightarrow> response list" where
  "responses [] = []"
| "responses (Respond r # evs) = r # responses evs"
| "responses (ev # evs) = responses evs"

fun inserts :: "event list \<Rightarrow> contact_message list" where
  "inserts [] = []"
| "inserts (DbInsert row # evs) = row # inserts evs"
| "inserts (ev # evs) = inserts evs"

fun isMailEvent :: "event \<Rightarrow> bool" where
  "isMailEvent CreateTransport = True"
| "isMailEvent (SendMail d mail) = True"
| "isMailEvent (Settled d outcome) = True"
| "isMailEvent ev = False"

section \<open>The specification's vocabulary\<close>

text \<open>
  The specification names the responses of the route by short codes. Each code below is
  the response the source builds at the corresponding place, with its status and its
  \<^verbatim>\<open>error\<close> and \<^verbatim>\<open>details\<close> texts.
\<close>

definition MissingField :: response where
  "MissingField =
     \<lparr>response.status = 400, json = ErrorBody ''All fields are required''
        ''Please fill in all required fields: name, email, subject, and message.'' None\<rparr>"

definition InvalidEmailFormat :: response where
  "InvalidEmailFormat =
     \<lparr>response.status = 400, json = ErrorBody ''Invalid email format''
        ''Please provide a valid email address.'' None\<rparr>"

datatype field = Name | Subject | Message

fun InvalidLength :: "field \<Rightarrow> response" where
  "InvalidLength Name =
     \<lparr>response.status = 400, json = ErrorBody ''Invalid name length''
        ''Name must be between 2 and 100 characters.'' None\<rparr>"
| "InvalidLength Subject =
     \<lparr>response.status = 400, json = ErrorBody ''Invalid subject length''
        ''Subject must be between 5 and 200 characters.'' None\<rparr>"
| "InvalidLength Message =
     \<lparr>response.status = 400, json = ErrorBody ''Invalid message length''
        ''Message must be between 10 and 2000 characters.'' None\<rparr>"

definition DatabaseError :: "jsstring option \<Rightarrow> response" where
  "DatabaseError debug =
     \<lparr>response.status = 500, json = ErrorBody ''Database error''
        ''Failed to store your message. Please try again or contact us directly.'' debug\<rparr>"

definition ServerError :: response where
  "ServerError =
     \<lparr>response.status = 500, json = ErrorBody ''Server error''
        ''Something went wrong. Please try again later or contact us directly.'' None\<rparr>"

definition Success :: "jsstring \<Rightarrow> jsstring \<Rightarrow> response" where
  "Success generated_id ts =
     \<lparr>response.status = 200, json = SuccessBody True ''Message sent successfully!'' generated_id ts\<rparr>"

definition TooManyRequests :: response where
  "TooManyRequests =
     \<lparr>response.status = 429,
      json = LimitBody ''Too many requests from this IP, please try again later.''\<rparr>"

definition TooManyContactSubmissions :: response where
  "TooManyContactSubmissions =
     \<lparr>response.status = 429,
      json = LimitBody ''Too many contact form submissions, please try again later.''\<rparr>"

definition InternalServerError :: response where
  "InternalServerError =
     \<lparr>response.status = 500, json = ErrorBody ''Internal server error''
        ''Something went wrong on our end.'' None\<rparr>"

definition FetchMessagesError :: response where
  "FetchMessagesError =
     \<lparr>response.status = 500, json = ErrorBody ''Server error''
        ''Failed to fetch messages.'' None\<rparr>"

definition NotFoundError :: "jsstring \<Rightarrow> response" where
  "NotFoundError url =
     \<lparr>response.status = 404, json = NotFoundBody ''Endpoint not found''
        (js ''The requested endpoint '' @ url @ js '' does not exist.'')\<rparr>"

definition Listing :: "stored_row list \<Rightarrow> response" where
  "Listing rows = \<lparr>response.status = 200, json = ListBody True rows (length rows)\<rparr>"

definition HealthError :: "jsstring \<Rightarrow> real \<Rightarrow> jsstring \<Rightarrow> response" where
  "HealthError ts up exception_message =
     \<lparr>response.status = 500,
      json = HealthErrorBody ''ERROR'' ts up ''ERROR'' exception_message\<rparr>"

text \<open>The error responses whose whole text is fixed in the source.\<close>

definition fixed_responses :: "response list" where
  "fixed_responses =
     [MissingField, InvalidEmailFormat, InvalidLength Name, InvalidLength Subject,
      InvalidLength Message, DatabaseError None, ServerError, TooManyRequests,
      TooManyContactSubmissions, InternalServerError, FetchMessagesError]"

text \<open>
  Production mode, as the source tests it when it configures CORS:
  \<^verbatim>\<open>process.env.NODE_ENV === 'production'\<close>.
\<close>

definition production_mode :: "env \<Rightarrow> bool" where
  "production_mode env \<longleftrightarrow> NODE_ENV env = Some (js ''production'')"

text \<open>
  The address pattern in the specification's words: a local part, a single
  \<^verbatim>\<open>@\<close>, a domain, a dot and a top-level segment, with no whitespace anywhere.
\<close>

definition spec_local_at_domain_tld :: "jsstring \<Rightarrow> bool" where
  "spec_local_at_domain_tld s \<longleftrightarrow>
     (\<exists>local domain tld.
        local \<noteq> [] \<and> domain \<noteq> [] \<and> tld \<noteq> [] \<and> s = local @ [0x40] @ domain @ [0x2E] @ tld)
     \<and> count_list s 0x40 = 1
     \<and> list_all (\<lambda>c. \<not> isWhiteSpace c) s"

text \<open>
  The validator in the specification's words: five checks in a fixed order, each with
  its rejection; the first check that is violated decides.
\<close>

definition text_of :: "jsstring option \<Rightarrow> jsstring" where
  "text_of v = (case v of None \<Rightarrow> [] | Some s \<Rightarrow> s)"

definition outside :: "nat \<Rightarrow> nat \<Rightarrow> jsstring option \<Rightarrow> bool" where
  "outside lo hi v \<longleftrightarrow> length (text_of v) < lo \<or> hi < length (text_of v)"

definition spec_checks :: "((form \<Rightarrow> bool) \<times> response) list" where
  "spec_checks =
     [(\<lambda>b. falsy (form.name b) \<or> falsy (form.email b) \<or> falsy (form.subject b)
            \<or> falsy (form.message b), MissingField),
      (\<lambda>b. \<not> test emailRegex (text_of (form.email b)), InvalidEmailFormat),
      (\<lambda>b. outside 2 100 (form.name b), InvalidLength Name),
      (\<lambda>b. outside 5 200 (form.subject b), InvalidLength Subject),
      (\<lambda>b. outside 10 2000 (form.message b), InvalidLength Message)]"

definition spec_first_violation :: "form \<Rightarrow> response option" where
  "spec_first_violation b = map_option snd (find (\<lambda>(violated, rejection). violated b) spec_checks)"

section \<open>Auxiliary definitions\<close>

text \<open>A code unit that \<^verbatim>\<open>[^\s@]\<close> accepts.\<close>

definition plain :: "jschar \<Rightarrow> bool" where
  "plain c \<longleftrightarrow> \<not> isWhiteSpace c \<and> c \<noteq> 0x40"

text \<open>The send that is not \<open>d\<close>, and what the mail relay answers to the send \<open>d\<close>.\<close>

definition other :: "dispatch \<Rightarrow> dispatch" where
  "other d = (case d of AdminMail \<Rightarrow> UserMail | UserMail \<Rightarrow> AdminMail)"

definition outcome_of :: "env \<Rightarrow> mail_options \<Rightarrow> mail_options \<Rightarrow> dispatch \<Rightarrow> mail_outcome" where
  "outcome_of env adminMail userMail d =
     (case d of AdminMail \<Rightarrow> sendMail env adminMail | UserMail \<Rightarrow> sendMail env userMail)"

section \<open>Example inputs\<close>

text \<open>
  Concrete requests and environments on which the theorems below are instantiated.
  \<open>asciiLower\<close> stands for \<^verbatim>\<open>toLowerCase\<close> on ASCII text.
\<close>

definition asciiLower :: "jsstring \<Rightarrow> jsstring" where
  "asciiLower s = map (\<lambda>c. if 0x41 \<le> c \<and> c \<le> 0x5A then c + 0x20 else c) s"

definition example_form :: form where
  "example_form =
     \<lparr>form.name = Some (js '' Ada Lovelace ''), email = Some (js ''Ada@Example.com''),
      subject = Some (js ''Hello there''), message = Some (js ''I would like to talk.'')\<rparr>"

definition example_request :: request where
  "example_request = \<lparr>body = example_form, ip = Some (js ''203.0.113.7''), remoteAddress = None\<rparr>"

definition example_row :: stored_row where
  "example_row =
     \<lparr>name = js ''Ada Lovelace'', email = js ''ada@example.com'', subject = js ''Hello there'',
      message = js ''I would like to talk.'', ip_address = Some (js ''203.0.113.7''),
      created_at = js ''2024-05-01T12:00:00.000Z'', status = js ''new'',
      id' = js ''7f3c'', updated_at = js ''2024-05-01T12:00:00.000Z''\<rparr>"

definition example_env ::
  "jsstring option \<Rightarrow> insert_outcome \<Rightarrow> (mail_options \<Rightarrow> mail_outcome) \<Rightarrow> dispatch \<Rightarrow> env" where
  "example_env mode outcome relay first =
     \<lparr>NODE_ENV = mode, SMTP_FROM = Some (js ''site@example.org''),
      ADMIN_EMAIL = Some (js ''owner@example.org''),
      now = js ''2024-05-01T12:00:00.000Z'',
      toLowerCase = asciiLower, toLocaleString = (\<lambda>ts. ts),
      db_insert = (\<lambda>row. outcome), sendMail = relay, settles_first = first\<rparr>"

definition database_down :: insert_outcome where
  "database_down = Resolves \<lparr>data = None, error = Some \<lparr>message = js ''connection refused''\<rparr>\<rparr>"

definition stored :: "stored_row list option \<Rightarrow> insert_outcome" where
  "stored rows = Resolves \<lparr>data = rows, error = None\<rparr>"

definition relay_down :: "mail_options \<Rightarrow> mail_outcome" where
  "relay_down mail = Failed (js ''ECONNREFUSED'')"

definition padded_request :: request where
  "padded_request =
     \<lparr>body = \<lparr>form.name = Some (0x61 # replicate 1 0x20), email = Some (js ''a@b.co''),
              subject = Some (0x61 # replicate 4 0x20),
              message = Some (0x61 # replicate 9 0x20)\<rparr>,
      ip = None, remoteAddress = None\<rparr>"

definition example_http :: "route \<Rightarrow> jsstring \<Rightarrow> parsed_body \<Rightarrow> http_request" where
  "example_http r url b =
     \<lparr>route = r, originalUrl = url, parsed = b, ip' = Some (js ''203.0.113.7''),
      remoteAddress' = None\<rparr>"

definition example_server :: "env \<Rightarrow> bool \<Rightarrow> bool \<Rightarrow> probe_outcome \<Rightarrow> server" where
  "example_server env general contact probe =
     \<lparr>handler_env = env, SUPABASE_URL = Some (js ''https://db.example.org''),
      SUPABASE_ANON_KEY = Some (js ''anon-key''), uptime = 42,
      limiter_allows = general, contactLimiter_allows = contact, db_probe = probe,
      db_select_all = database_down\<rparr>"

definition letters :: "nat \<Rightarrow> jsstring" where
  "letters k = replicate k 0x61"

definition form_of_lengths :: "nat \<Rightarrow> nat \<Rightarrow> nat \<Rightarrow> form" where
  "form_of_lengths i j k =
     \<lparr>form.name = Some (letters i), email = Some (js ''a@b.co''), subject = Some (letters j),
      message = Some (letters k)\<rparr>"

section \<open>Properties of the regular expression\<close>

lemma test_Nil: "test [] s \<longleftrightarrow> s = []"
  by simp

lemma test_Once:
  "test (Once cs # ps) s \<longleftrightarrow> (\<exists>c v. s = c # v \<and> accepts cs c \<and> test ps v)"
  by (cases s) auto

lemma test_OneOrMore:
  "test (OneOrMore cs # ps) s \<longleftrightarrow>
     (\<exists>u v. s = u @ v \<and> u \<noteq> [] \<and> list_all (accepts cs) u \<and> test ps v)"
proof (induction s)
  case Nil
  then show ?case by simp
next
  case (Cons c s)
  show ?case
  proof
    assume "test (OneOrMore cs # ps) (c # s)"
    then have c: "accepts cs c" and alt: "test (OneOrMore cs # ps) s \<or> test ps s"
      by simp_all
    from alt show "\<exists>u v. c # s = u @ v \<and> u \<noteq> [] \<and> list_all (accepts cs) u \<and> test ps v"
    proof
      assume "test (OneOrMore cs # ps) s"
      then obtain u v where "s = u @ v" "u \<noteq> []" "list_all (accepts cs) u" "test ps v"
        using Cons.IH by blast
      with c have "c # s = (c # u) @ v \<and> c # u \<noteq> [] \<and> list_all (accepts cs) (c # u) \<and> test ps v"
        by simp
      then show ?thesis by blast
    next
      assume "test ps s"
      with c have "c # s = [c] @ s \<and> [c] \<noteq> [] \<and> list_all (accepts cs) [c] \<and> test ps s"
        by simp
      then show ?thesis by blast
    qed
  next
    assume "\<exists>u v. c # s = u @ v \<and> u \<noteq> [] \<and> list_all (accepts cs) u \<and> test ps v"
    then obtain u v where uv: "c # s = u @ v" "u \<noteq> []" "list_all (accepts cs) u" "test ps v"
      by blast
    then obtain u' where u: "u = c # u'" and s: "s = u' @ v"
      by (cases u) auto
    show "test (OneOrMore cs # ps) (c # s)"
    proof (cases "u' = []")
      case True
      with uv u s show ?thesis by simp
    next
      case False
      with uv u s have "test (OneOrMore cs # ps) s"
        using Cons.IH by auto
      with uv u show ?thesis by simp
    qed
  qed
qed

lemma accepts_NoneOf_plain: "accepts (NoneOf (\<lambda>c. isWhiteSpace c \<or> c = 0x40)) = plain"
  by (auto simp: plain_def fun_eq_iff)

lemma test_emailRegex:
  "test emailRegex s \<longleftrightarrow>
     (\<exists>l d t. s = l @ [0x40] @ d @ [0x2E] @ t \<and> l \<noteq> [] \<and> d \<noteq> [] \<and> t \<noteq> []
        \<and> list_all plain l \<and> list_all plain d \<and> list_all plain t)"
  (is "?L \<longleftrightarrow> ?R")
proof
  let ?cls = "OneOrMore (NoneOf (\<lambda>c. isWhiteSpace c \<or> c = 0x40))"
  assume ?L
  then have "test (?cls # Once (Exactly 0x40) # ?cls # Once (Exactly 0x2E) # [?cls]) s"
    by (simp add: emailRegex_def)
  then obtain l r1 where 1: "s = l @ r1" "l \<noteq> []" "list_all plain l"
      and t1: "test (Once (Exactly 0x40) # ?cls # Once (Exactly 0x2E) # [?cls]) r1"
    unfolding test_OneOrMore [of _ "Once (Exactly 0x40) # ?cls # Once (Exactly 0x2E) # [?cls]"]
      accepts_NoneOf_plain by blast
  from t1 obtain r2 where 2: "r1 = 0x40 # r2"
      and t2: "test (?cls # Once (Exactly 0x2E) # [?cls]) r2"
    unfolding test_Once by auto
  from t2 obtain d r3 where 3: "r2 = d @ r3" "d \<noteq> []" "list_all plain d"
      and t3: "test (Once (Exactly 0x2E) # [?cls]) r3"
    unfolding test_OneOrMore [of _ "Once (Exactly 0x2E) # [?cls]"] accepts_NoneOf_plain by blast
  from t3 obtain r4 where 4: "r3 = 0x2E # r4" and t4: "test [?cls] r4"
    unfolding test_Once by auto
  from t4 have 5: "r4 \<noteq> []" "list_all plain r4"
    unfolding test_OneOrMore [of _ "[]"] accepts_NoneOf_plain by auto
  from 1 2 3 4 5 have "s = l @ [0x40] @ d @ [0x2E] @ r4 \<and> l \<noteq> [] \<and> d \<noteq> [] \<and> r4 \<noteq> []
        \<and> list_all plain l \<and> list_all plain d \<and> list_all plain r4"
    by simp
  then show ?R by blast
next
  let ?cls = "OneOrMore (NoneOf (\<lambda>c. isWhiteSpace c \<or> c = 0x40))"
  assume ?R
  then obtain l d t where s: "s = l @ [0x40] @ d @ [0x2E] @ t"
      and ne: "l \<noteq> []" "d \<noteq> []" "t \<noteq> []"
      and pl: "list_all plain l" "list_all plain d" "list_all plain t"
    by blast
  have t4: "test [?cls] t"
    unfolding test_OneOrMore [of _ "[]"] accepts_NoneOf_plain using ne pl by simp
  then have t3: "test (Once (Exactly 0x2E) # [?cls]) (0x2E # t)"
    by simp
  have t2: "test (?cls # Once (Exactly 0x2E) # [?cls]) (d @ 0x2E # t)"
    unfolding test_OneOrMore [of _ "Once (Exactly 0x2E) # [?cls]"] accepts_NoneOf_plain
    using ne pl t3 by blast
  then have t1: "test (Once (Exactly 0x40) # ?cls # Once (Exactly 0x2E) # [?cls]) (0x40 # d @ 0x2E # t)"
    by simp
  have "test (?cls # Once (Exactly 0x40) # ?cls # Once (Exactly 0x2E) # [?cls]) (l @ 0x40 # d @ 0x2E # t)"
    unfolding test_OneOrMore [of _ "Once (Exactly 0x40) # ?cls # Once (Exactly 0x2E) # [?cls]"]
      accepts_NoneOf_plain
    using ne pl t1 by blast
  then show ?L by (simp add: emailRegex_def s)
qed

lemma test_emailRegex_Nil: "\<not> test emailRegex []"
  by (simp add: emailRegex_def)

lemma count_list_append: "count_list (xs @ ys) a = count_list xs a + count_list ys a"
  by (induction xs) auto

lemma plain_parts:
  "list_all plain l \<and> list_all plain d \<and> list_all plain t \<longleftrightarrow>
     count_list (l @ [0x40] @ d @ [0x2E] @ t) 0x40 = 1
     \<and> list_all (\<lambda>c. \<not> isWhiteSpace c) (l @ [0x40] @ d @ [0x2E] @ t)"
proof -
  have ws: "\<not> isWhiteSpace 0x40" "\<not> isWhiteSpace 0x2E"
    by (simp_all add: isWhiteSpace_def)
  have pl: "list_all plain xs \<longleftrightarrow> count_list xs 0x40 = 0 \<and> list_all (\<lambda>c. \<not> isWhiteSpace c) xs" for xs
    by (induction xs) (auto simp: plain_def)
  show ?thesis
    by (auto simp: pl count_list_append ws)
qed

lemma emailRegex_spec: "test emailRegex s \<longleftrightarrow> spec_local_at_domain_tld s"
  unfolding test_emailRegex spec_local_at_domain_tld_def
  using plain_parts by blast

lemma test_short_address: "test emailRegex (js ''a@b.co'')"
  by (simp add: emailRegex_def js_def isWhiteSpace_def)

lemma test_no_at: "\<not> test emailRegex (js ''nobody'')"
  by (simp add: emailRegex_def js_def isWhiteSpace_def)

lemma spec_short_address: "spec_local_at_domain_tld (js ''a@b.co'')"
proof -
  have "js ''a'' \<noteq> [] \<and> js ''b'' \<noteq> [] \<and> js ''co'' \<noteq> []
      \<and> js ''a@b.co'' = js ''a'' @ [0x40] @ js ''b'' @ [0x2E] @ js ''co''"
    by (simp add: js_def)
  then have "\<exists>local domain tld. local \<noteq> [] \<and> domain \<noteq> [] \<and> tld \<noteq> []
      \<and> js ''a@b.co'' = local @ [0x40] @ domain @ [0x2E] @ tld"
    by blast
  moreover have "count_list (js ''a@b.co'') 0x40 = 1"
    by (simp add: js_def)
  moreover have "list_all (\<lambda>c. \<not> isWhiteSpace c) (js ''a@b.co'')"
    by (simp add: js_def isWhiteSpace_def)
  ultimately show ?thesis
    unfolding spec_local_at_domain_tld_def by blast
qed

lemma spec_no_at: "\<not> spec_local_at_domain_tld (js ''nobody'')"
proof -
  have "count_list (js ''nobody'') 0x40 = 0"
    by (simp add: js_def)
  then show ?thesis
    by (simp add: spec_local_at_domain_tld_def)
qed

section \<open>Properties of the validator\<close>

lemma validate_present:
  "validateContactForm \<lparr>form.name = Some n, email = Some e, subject = Some s, message = Some m\<rparr> =
     (if n = [] \<or> e = [] \<or> s = [] \<or> m = [] then Some MissingField
      else if \<not> test emailRegex e then Some InvalidEmailFormat
      else if length n < 2 \<or> length n > 100 then Some (InvalidLength Name)
      else if length s < 5 \<or> length s > 200 then Some (InvalidLength Subject)
      else if length m < 10 \<or> length m > 2000 then Some (InvalidLength Message)
      else None)"
  by (simp add: validateContactForm_def MissingField_def InvalidEmailFormat_def)

lemma validate_absent:
  "form.name b = None \<or> form.email b = None \<or> form.subject b = None \<or> form.message b = None
     \<Longrightarrow> validateContactForm b = Some MissingField"
  by (auto simp: validateContactForm_def MissingField_def split: option.splits)

lemma validate_rejections:
  assumes "validateContactForm b = Some r"
  shows "r \<in> {MissingField, InvalidEmailFormat, InvalidLength Name, InvalidLength Subject,
           InvalidLength Message}"
proof (cases "form.name b = None \<or> form.email b = None \<or> form.subject b = None
    \<or> form.message b = None")
  case True
  with assms validate_absent [of b] show ?thesis by simp
next
  case False
  then obtain n e s m where "form.name b = Some n" "form.email b = Some e"
      "form.subject b = Some s" "form.message b = Some m"
    by auto
  then have "b = \<lparr>form.name = Some n, email = Some e, subject = Some s, message = Some m\<rparr>"
    by (cases b) simp
  with assms validate_present [of n e s m] show ?thesis
    by (auto split: if_splits)
qed

text \<open>
  C4. For every four input strings (and also when a field is absent), the validator
  checks presence of all four fields, then the email format, then the length of the
  name, of the subject and of the message, and the rejection it returns is that of the
  first violated check in this order: \<open>MissingField\<close>, \<open>InvalidEmailFormat\<close> and
  \<open>InvalidLength\<close> of the field.
\<close>

theorem validator_reports_first_violation:
  "validateContactForm b = spec_first_violation b"
proof (cases "form.name b = None \<or> form.email b = None \<or> form.subject b = None \<or> form.message b = None")
  case True
  then have "falsy (form.name b) \<or> falsy (form.email b) \<or> falsy (form.subject b) \<or> falsy (form.message b)"
    by (auto simp: falsy_def)
  then have "spec_first_violation b = Some MissingField"
    by (simp add: spec_first_violation_def spec_checks_def)
  with True show ?thesis by (simp add: validate_absent)
next
  case False
  then obtain n e s m where f: "form.name b = Some n" "form.email b = Some e"
      "form.subject b = Some s" "form.message b = Some m"
    by auto
  then have b: "b = \<lparr>form.name = Some n, email = Some e, subject = Some s, message = Some m\<rparr>"
    by (cases b) simp
  show ?thesis
    by (subst b, subst validate_present)
       (simp add: f spec_first_violation_def spec_checks_def falsy_def text_of_def outside_def)
qed

theorem validator_reports_first_violation_witness:
  "spec_first_violation
     \<lparr>form.name = Some (js ''A''), email = Some (js ''nobody''), subject = Some (js ''Hi''),
      message = Some (js ''short'')\<rparr> = Some InvalidEmailFormat
   \<and> spec_first_violation
     \<lparr>form.name = Some (js ''A''), email = Some (js ''a@b.co''), subject = Some (js ''Hi''),
      message = Some (js ''short'')\<rparr> = Some (InvalidLength Name)
   \<and> spec_first_violation
     \<lparr>form.name = Some (js ''Ada''), email = Some (js ''a@b.co''), subject = Some (js ''Hi''),
      message = Some (js ''short'')\<rparr> = Some (InvalidLength Subject)
   \<and> spec_first_violation
     \<lparr>form.name = None, email = Some (js ''nobody''), subject = Some (js ''Hi''),
      message = Some (js ''short'')\<rparr> = Some MissingField"
  using
    validator_reports_first_violation
      [of "\<lparr>form.name = Some (js ''A''), email = Some (js ''nobody''), subject = Some (js ''Hi''),
            message = Some (js ''short'')\<rparr>"]
    validator_reports_first_violation
      [of "\<lparr>form.name = Some (js ''A''), email = Some (js ''a@b.co''), subject = Some (js ''Hi''),
            message = Some (js ''short'')\<rparr>"]
    validator_reports_first_violation
      [of "\<lparr>form.name = Some (js ''Ada''), email = Some (js ''a@b.co''), subject = Some (js ''Hi''),
            message = Some (js ''short'')\<rparr>"]
    validator_reports_first_violation
      [of "\<lparr>form.name = None, email = Some (js ''nobody''), subject = Some (js ''Hi''),
            message = Some (js ''short'')\<rparr>"]
    test_short_address test_no_at
  by (simp add: validate_present validate_absent) (simp add: js_def)

text \<open>
  C5. A submission whose four fields are present and whose email does not have the form
  local part, single \<^verbatim>\<open>@\<close>, domain, dot, top-level segment without whitespace is
  rejected with \<open>InvalidEmailFormat\<close>; every string of that form passes the email
  format check.
\<close>

theorem email_format_check:
  "(n \<noteq> [] \<and> e \<noteq> [] \<and> s \<noteq> [] \<and> m \<noteq> [] \<and> \<not> spec_local_at_domain_tld e \<longrightarrow>
      validateContactForm \<lparr>form.name = Some n, email = Some e, subject = Some s, message = Some m\<rparr>
        = Some InvalidEmailFormat)
   \<and> (spec_local_at_domain_tld e \<longrightarrow> test emailRegex e)"
  by (simp add: validate_present emailRegex_spec)

theorem email_format_check_witness:
  "\<not> spec_local_at_domain_tld (js ''nobody'')
   \<and> validateContactForm
       \<lparr>form.name = Some (js ''Ada''), email = Some (js ''nobody''),
        subject = Some (js ''Hello''), message = Some (js ''I would like to talk.'')\<rparr>
       = Some InvalidEmailFormat
   \<and> spec_local_at_domain_tld (js ''a@b.co'')
   \<and> test emailRegex (js ''a@b.co'')"
  using
    email_format_check
      [of "js ''Ada''" "js ''nobody''" "js ''Hello''" "js ''I would like to talk.''"]
    email_format_check [of _ "js ''a@b.co''"]
    spec_no_at spec_short_address
  by (simp add: js_def)

text \<open>
  C6. The length bounds are inclusive at both ends: with a well-formed email, a
  submission is accepted exactly when the name has 2 to 100 code units, the subject 5 to
  200 and the message 10 to 2000. The instances below are the boundary lengths.
\<close>

theorem length_bounds_inclusive:
  "test emailRegex e \<Longrightarrow>
     (validateContactForm \<lparr>form.name = Some n, email = Some e, subject = Some s, message = Some m\<rparr> = None)
       = (2 \<le> length n \<and> length n \<le> 100 \<and> 5 \<le> length s \<and> length s \<le> 200
          \<and> 10 \<le> length m \<and> length m \<le> 2000)"
  using test_emailRegex_Nil by (auto simp: validate_present)

theorem length_bounds_inclusive_witness:
  "validateContactForm (form_of_lengths 1 5 10) \<noteq> None
   \<and> validateContactForm (form_of_lengths 2 5 10) = None
   \<and> validateContactForm (form_of_lengths 100 5 10) = None
   \<and> validateContactForm (form_of_lengths 101 5 10) \<noteq> None
   \<and> validateContactForm (form_of_lengths 2 4 10) \<noteq> None
   \<and> validateContactForm (form_of_lengths 2 200 10) = None
   \<and> validateContactForm (form_of_lengths 2 201 10) \<noteq> None
   \<and> validateContactForm (form_of_lengths 2 5 9) \<noteq> None
   \<and> validateContactForm (form_of_lengths 2 5 2000) = None
   \<and> validateContactForm (form_of_lengths 2 5 2001) \<noteq> None"
  using
    length_bounds_inclusive [OF test_short_address, of "letters 1" "letters 5" "letters 10"]
    length_bounds_inclusive [OF test_short_address, of "letters 2" "letters 5" "letters 10"]
    length_bounds_inclusive [OF test_short_address, of "letters 100" "letters 5" "letters 10"]
    length_bounds_inclusive [OF test_short_address, of "letters 101" "letters 5" "letters 10"]
    length_bounds_inclusive [OF test_short_address, of "letters 2" "letters 4" "letters 10"]
    length_bounds_inclusive [OF test_short_address, of "letters 2" "letters 200" "letters 10"]
    length_bounds_inclusive [OF test_short_address, of "letters 2" "letters 201" "letters 10"]
    length_bounds_inclusive [OF test_short_address, of "letters 2" "letters 5" "letters 9"]
    length_bounds_inclusive [OF test_short_address, of "letters 2" "letters 5" "letters 2000"]
    length_bounds_inclusive [OF test_short_address, of "letters 2" "letters 5" "letters 2001"]
  by (simp add: form_of_lengths_def letters_def)

section \<open>Properties of the handler\<close>

lemma responses_append: "responses (xs @ ys) = responses xs @ responses ys"
  by (induction xs rule: responses.induct) auto

lemma inserts_append: "inserts (xs @ ys) = inserts xs @ inserts ys"
  by (induction xs rule: inserts.induct) auto

lemma responses_Settled: "responses (map (\<lambda>(d, outcome). Settled d outcome) xs) = []"
  by (induction xs) auto

lemma inserts_Settled: "inserts (map (\<lambda>(d, outcome). Settled d outcome) xs) = []"
  by (induction xs) auto

lemma sendEmails_responses:
  "responses (fst (sendEmails env req n e s m)) = []"
  "responses (snd (sendEmails env req n e s m)) = []"
  by (auto simp: sendEmails_def Let_def responses_append responses_Settled
      split: prod.splits option.splits)

lemma sendEmails_inserts:
  "inserts (fst (sendEmails env req n e s m)) = []"
  "inserts (snd (sendEmails env req n e s m)) = []"
  by (auto simp: sendEmails_def Let_def inserts_append inserts_Settled
      split: prod.splits option.splits)

lemma sendEmails_no_Contact_error:
  "ConsoleError ''Contact form error:'' \<notin> set (fst (sendEmails env req n e s m))"
  by (auto simp: sendEmails_def Let_def split: prod.splits option.splits)

lemma not_Delivered: "outcome \<noteq> Delivered \<Longrightarrow> \<exists>reason. outcome = Failed reason"
  by (cases outcome) auto

lemma settlements_eq:
  "settlements env adminMail userMail =
     [(settles_first env, outcome_of env adminMail userMail (settles_first env)),
      (other (settles_first env), outcome_of env adminMail userMail (other (settles_first env)))]"
  by (cases "settles_first env") (simp_all add: settlements_def outcome_of_def other_def)

lemma handler_absent:
  "form.name (body req) = None \<or> form.email (body req) = None \<or> form.subject (body req) = None
     \<or> form.message (body req) = None
   \<Longrightarrow> contact_handler env req = [ConsoleError ''Contact form error:'', Respond ServerError]"
  by (auto simp: contact_handler_def catchAll_def ServerError_def split: option.splits)

lemma handler_rejects:
  assumes "form.name (body req) = Some n" "form.email (body req) = Some e"
    "form.subject (body req) = Some s" "form.message (body req) = Some m"
    and "db_insert env (newMessage env req n e s m) = Rejects"
  shows "contact_handler env req =
    [DbInsert (newMessage env req n e s m), ConsoleError ''Contact form error:'', Respond ServerError]"
  using assms by (simp add: contact_handler_def catchAll_def ServerError_def)

lemma handler_db_error:
  assumes "form.name (body req) = Some n" "form.email (body req) = Some e"
    "form.subject (body req) = Some s" "form.message (body req) = Some m"
    and "db_insert env (newMessage env req n e s m) = Resolves result"
    and "error result = Some err"
  shows "contact_handler env req =
    [DbInsert (newMessage env req n e s m),
     ConsoleError ''Supabase error:'', ConsoleError ''Error details:'',
     Respond (DatabaseError (if NODE_ENV env = Some (js ''development'')
                             then Some (db_error.message err) else None))]"
  using assms by (simp add: contact_handler_def DatabaseError_def)

lemma handler_db_ok:
  assumes "form.name (body req) = Some n" "form.email (body req) = Some e"
    "form.subject (body req) = Some s" "form.message (body req) = Some m"
    and "db_insert env (newMessage env req n e s m) = Resolves result"
    and "error result = None"
  shows "contact_handler env req =
    DbInsert (newMessage env req n e s m) #
    fst (sendEmails env req n e s m)
    @ (case data result of
         Some (row # rows) \<Rightarrow> [Respond (Success (id' row) (now env))]
       | _ \<Rightarrow> [ConsoleError ''Contact form error:'', Respond ServerError])
    @ snd (sendEmails env req n e s m)"
  using assms
  by (simp add: contact_handler_def Success_def ServerError_def catchAll_def
      split: prod.splits option.splits list.splits)

lemma handler_db_ok_responses:
  assumes "form.name (body req) = Some n" "form.email (body req) = Some e"
    "form.subject (body req) = Some s" "form.message (body req) = Some m"
    and "db_insert env (newMessage env req n e s m) = Resolves result"
    and "error result = None"
  shows "responses (contact_handler env req) =
    (case data result of Some (row # rows) \<Rightarrow> [Success (id' row) (now env)] | _ \<Rightarrow> [ServerError])"
  by (simp add: handler_db_ok [OF assms] responses_append sendEmails_responses
      split: option.splits list.splits)

lemma production_not_development: "js ''production'' \<noteq> js ''development''"
  by (simp add: js_def)

lemma test_not_development: "js ''test'' \<noteq> js ''development''" "js ''test'' \<noteq> js ''production''"
  by (simp_all add: js_def)

lemma handler_responses_production:
  assumes "production_mode env"
  shows "list_all (\<lambda>r. r \<in> set fixed_responses \<or> (\<exists>generated. r = Success generated (now env)))
           (responses (contact_handler env req))"
proof (cases "form.name (body req) = None \<or> form.email (body req) = None
    \<or> form.subject (body req) = None \<or> form.message (body req) = None")
  case True
  then show ?thesis
    by (simp add: handler_absent fixed_responses_def)
next
  case False
  then obtain n e s m where f: "form.name (body req) = Some n" "form.email (body req) = Some e"
    "form.subject (body req) = Some s" "form.message (body req) = Some m"
    by auto
  show ?thesis
  proof (cases "db_insert env (newMessage env req n e s m)")
    case Rejects
    then show ?thesis
      by (simp add: handler_rejects [OF f] fixed_responses_def)
  next
    case (Resolves result)
    show ?thesis
    proof (cases "error result")
      case None
      show ?thesis
        unfolding handler_db_ok_responses [OF f Resolves None]
        by (auto simp: fixed_responses_def split: option.splits list.splits)
    next
      case (Some err)
      from assms have "NODE_ENV env \<noteq> Some (js ''development'')"
        by (simp add: production_mode_def production_not_development)
      then show ?thesis
        by (simp add: handler_db_error [OF f Resolves Some] fixed_responses_def)
    qed
  qed
qed

lemma dropWhile_replicate_append:
  "P x \<Longrightarrow> dropWhile P (replicate k x @ ys) = dropWhile P ys"
  by (induction k) auto

lemma trim_padded:
  assumes "\<not> isWhiteSpace c"
  shows "trim (c # replicate k 0x20) = [c]"
proof -
  have sp: "isWhiteSpace 0x20"
    by (simp add: isWhiteSpace_def)
  have "rev (c # replicate k 0x20) = replicate k 0x20 @ [c]"
    by simp
  then show ?thesis
    using assms sp by (simp add: trim_def dropWhile_replicate_append del: rev.simps)
qed

lemma example_valid: "validateContactForm (body example_request) = None"
  by (simp add: example_request_def example_form_def validateContactForm_def emailRegex_def
      js_def isWhiteSpace_def)

lemma example_fields:
  "form.name (body example_request) = Some (js '' Ada Lovelace '')"
  "form.email (body example_request) = Some (js ''Ada@Example.com'')"
  "form.subject (body example_request) = Some (js ''Hello there'')"
  "form.message (body example_request) = Some (js ''I would like to talk.'')"
  by (simp_all add: example_request_def example_form_def)

lemma example_env_simps:
  "NODE_ENV (example_env mode outcome relay first) = mode"
  "now (example_env mode outcome relay first) = js ''2024-05-01T12:00:00.000Z''"
  "toLowerCase (example_env mode outcome relay first) = asciiLower"
  "db_insert (example_env mode outcome relay first) row = outcome"
  "sendMail (example_env mode outcome relay first) = relay"
  "settles_first (example_env mode outcome relay first) = first"
  by (simp_all add: example_env_def)

lemma example_normalised:
  "trim (js '' Ada Lovelace '') = js ''Ada Lovelace''"
  "trim (asciiLower (js ''Ada@Example.com'')) = js ''ada@example.com''"
  "trim (js ''Hello there'') = js ''Hello there''"
  "trim (js ''I would like to talk.'') = js ''I would like to talk.''"
  "clientIp example_request = Some (js ''203.0.113.7'')"
  by (simp_all add: trim_def js_def isWhiteSpace_def asciiLower_def clientIp_def falsy_def
      example_request_def)



text \<open>
  C2. For every valid submission whose insert reports an error, the handler calls the
  insert, logs the error twice and responds 500 with \<open>DatabaseError\<close>, and nothing else:
  no mail transport is created, no payload is handed to the mail relay and no send is
  called.
\<close>

theorem database_error_stops_before_email:
  assumes "validateContactForm (body req) = None"
    and "form.name (body req) = Some n" and "form.email (body req) = Some e"
    and "form.subject (body req) = Some s" and "form.message (body req) = Some m"
    and "db_insert env (newMessage env req n e s m) = Resolves result"
    and "error result = Some err"
  shows "(\<exists>debug. contact_handler env req =
            [DbInsert (newMessage env req n e s m), ConsoleError ''Supabase error:'',
             ConsoleError ''Error details:'', Respond (DatabaseError debug)])
         \<and> filter isMailEvent (contact_handler env req) = []"
  unfolding handler_db_error [OF assms(2-7)] by auto

theorem database_error_stops_before_email_witness:
  "validateContactForm (body example_request) = None
   \<and> responses (contact_handler
        (example_env (Some (js ''production'')) database_down (\<lambda>mail. Delivered) AdminMail)
        example_request) = [DatabaseError None]
   \<and> filter isMailEvent (contact_handler
        (example_env (Some (js ''production'')) database_down (\<lambda>mail. Delivered) AdminMail)
        example_request) = []"
  using database_error_stops_before_email
    [OF example_valid example_fields,
     of "example_env (Some (js ''production'')) database_down (\<lambda>mail. Delivered) AdminMail"
        "\<lparr>data = None, error = Some \<lparr>message = js ''connection refused''\<rparr>\<rparr>"
        "\<lparr>message = js ''connection refused''\<rparr>"]
    handler_db_error
    [OF example_fields,
     of "example_env (Some (js ''production'')) database_down (\<lambda>mail. Delivered) AdminMail"
        "\<lparr>data = None, error = Some \<lparr>message = js ''connection refused''\<rparr>\<rparr>"
        "\<lparr>message = js ''connection refused''\<rparr>"]
  by (simp add: example_env_simps database_down_def example_valid production_not_development)

text \<open>
  C3. For every valid submission whose insert succeeds and returns the stored row, the
  only response is the 200 success, whatever the mail relay answers and whichever send
  settles first. The insert is the only call to the datastore, so nothing undoes it.
  When both sends fail, the failure is logged as an email error and the catch-all
  boundary is not reached.
\<close>

theorem email_failure_never_changes_response:
  assumes "validateContactForm (body req) = None"
    and "form.name (body req) = Some n" and "form.email (body req) = Some e"
    and "form.subject (body req) = Some s" and "form.message (body req) = Some m"
    and "db_insert env (newMessage env req n e s m) = Resolves result"
    and "error result = None" and "data result = Some (row # rows)"
  shows "responses (contact_handler env req) = [Success (id' row) (now env)]
         \<and> inserts (contact_handler env req) = [newMessage env req n e s m]
         \<and> (sendMail env (adminMailOptions env (now env) (clientIp req) n e s m) \<noteq> Delivered
              \<and> sendMail env (userMailOptions env (now env) n e s) \<noteq> Delivered
            \<longrightarrow> ConsoleError ''Email error:'' \<in> set (contact_handler env req)
                \<and> ConsoleError ''Contact form error:'' \<notin> set (contact_handler env req))"
proof -
  have r: "responses (contact_handler env req) = [Success (id' row) (now env)]"
    using assms(8)
    by (simp add: handler_db_ok [OF assms(2-7)] responses_append sendEmails_responses)
  have i: "inserts (contact_handler env req) = [newMessage env req n e s m]"
    using assms(8)
    by (simp add: handler_db_ok [OF assms(2-7)] inserts_append sendEmails_inserts)
  have l: "ConsoleError ''Email error:'' \<in> set (fst (sendEmails env req n e s m))"
    if a: "sendMail env (adminMailOptions env (now env) (clientIp req) n e s m) \<noteq> Delivered"
      and u: "sendMail env (userMailOptions env (now env) n e s) \<noteq> Delivered"
  proof -
    obtain r1 r2 where
      "sendMail env (adminMailOptions env (now env) (clientIp req) n e s m) = Failed r1"
      "sendMail env (userMailOptions env (now env) n e s) = Failed r2"
      using not_Delivered [OF a] not_Delivered [OF u] by blast
    then show ?thesis
      by (cases "settles_first env") (simp_all add: sendEmails_def settlements_def)
  qed
  have c: "ConsoleError ''Contact form error:'' \<notin> set (contact_handler env req)"
    using assms(8) sendEmails_no_Contact_error [of env req n e s m]
    by (auto simp: handler_db_ok [OF assms(2-7)] sendEmails_def Let_def
        split: prod.splits option.splits)
  from r i l c show ?thesis
    by (simp add: handler_db_ok [OF assms(2-7)])
qed

theorem email_failure_never_changes_response_witness:
  "validateContactForm (body example_request) = None
   \<and> responses (contact_handler
        (example_env None (stored (Some [example_row])) relay_down AdminMail) example_request) =
       [Success (js ''7f3c'') (js ''2024-05-01T12:00:00.000Z'')]
   \<and> ConsoleError ''Email error:'' \<in> set (contact_handler
        (example_env None (stored (Some [example_row])) relay_down AdminMail) example_request)"
  using email_failure_never_changes_response
    [OF example_valid example_fields,
     of "example_env None (stored (Some [example_row])) relay_down AdminMail"
        "\<lparr>data = Some [example_row], error = None\<rparr>" example_row "[]"]
  by (simp add: example_env_simps stored_def relay_down_def example_valid)
     (simp add: example_row_def)

lemma responses_errorMiddleware: "responses errorMiddleware = [InternalServerError]"
  by (simp add: errorMiddleware_def InternalServerError_def)

lemma responses_adminCatch: "responses adminCatch = [FetchMessagesError]"
  by (simp add: adminCatch_def FetchMessagesError_def)

lemma admin_responses:
  "responses (get_api_admin_messages srv) = [FetchMessagesError]
   \<or> (\<exists>rows. responses (get_api_admin_messages srv) = [Listing rows])"
  by (auto simp: get_api_admin_messages_def responses_adminCatch Listing_def
      split: insert_outcome.splits option.splits)

lemma contact_route_responses_production:
  assumes "production_mode (handler_env srv)"
  shows "list_all (\<lambda>r. r \<in> set fixed_responses
            \<or> (\<exists>generated. r = Success generated (now (handler_env srv))))
           (responses (post_api_contact srv h))"
proof (cases "contactLimiter_allows srv")
  case False
  then show ?thesis
    by (simp add: post_api_contact_def fixed_responses_def TooManyContactSubmissions_def)
next
  case True
  show ?thesis
  proof (cases "parsed h")
    case ParseFailed
    with True show ?thesis
      by (simp add: post_api_contact_def responses_errorMiddleware fixed_responses_def)
  next
    case NoBody
    with True show ?thesis
      by (simp add: post_api_contact_def responses_errorMiddleware fixed_responses_def)
  next
    case (Parsed b)
    show ?thesis
    proof (cases "validateContactForm b")
      case None
      with True Parsed
        handler_responses_production [OF assms, of "contact_request h b"]
      show ?thesis
        by (simp add: post_api_contact_def)
    next
      case (Some r)
      with True Parsed validate_rejections [OF Some] show ?thesis
        by (auto simp: post_api_contact_def fixed_responses_def)
    qed
  qed
qed

lemma health_responses:
  "(\<exists>r. responses (get_api_health srv) = [r] \<and> response.status r = 200)
   \<or> (\<exists>exception_message. responses (get_api_health srv) =
         [HealthError (now (handler_env srv)) (uptime srv) exception_message])"
  by (cases "db_probe srv") (simp_all add: get_api_health_def HealthError_def)

lemma app_responses_production:
  assumes "production_mode (handler_env srv)"
  shows "list_all (\<lambda>r. r \<in> set fixed_responses \<or> r = NotFoundError (originalUrl h)
            \<or> (\<exists>generated. r = Success generated (now (handler_env srv)))
            \<or> (\<exists>rows. r = Listing rows)
            \<or> (route h = GetHealth
                \<and> (response.status r = 200
                    \<or> (\<exists>exception_message.
                          r = HealthError (now (handler_env srv)) (uptime srv)
                                exception_message))))
           (responses (app srv h))"
proof (cases "parsed h = ParseFailed")
  case True
  then show ?thesis
    by (simp add: app_def responses_errorMiddleware fixed_responses_def)
next
  case parsed: False
  show ?thesis
  proof (cases "limiter_allows srv")
    case False
    with parsed show ?thesis
      by (simp add: app_def fixed_responses_def TooManyRequests_def)
  next
    case True
    show ?thesis
    proof (cases "route h")
      case GetHealth
      with parsed True health_responses [of srv] show ?thesis
        by (auto simp: app_def)
    next
      case PostContact
      with parsed True contact_route_responses_production [OF assms(1), of h]
      show ?thesis
        by (auto simp: app_def list_all_iff)
    next
      case GetAdminMessages
      with parsed True admin_responses [of srv] show ?thesis
        by (auto simp: app_def fixed_responses_def)
    next
      case Unmatched
      with parsed True show ?thesis
        by (simp add: app_def NotFoundError_def)
    qed
  qed
qed

lemma example_contact_request:
  "contact_request (example_http r url b) example_form = example_request"
  by (simp add: contact_request_def example_http_def example_request_def)

lemma example_valid_form: "validateContactForm example_form = None"
  using example_valid by (simp add: example_request_def)

lemma example_http_simps:
  "route (example_http r url b) = r"
  "originalUrl (example_http r url b) = url"
  "parsed (example_http r url b) = b"
  by (simp_all add: example_http_def)

lemma example_server_simps:
  "handler_env (example_server env general contact probe) = env"
  "uptime (example_server env general contact probe) = 42"
  "limiter_allows (example_server env general contact probe) = general"
  "contactLimiter_allows (example_server env general contact probe) = contact"
  "db_probe (example_server env general contact probe) = probe"
  by (simp_all add: example_server_def)

text \<open>
  C7, as the source has it. The claim fails twice. The raw datastore message is not in
  the response whenever the process is outside production mode: with
  \<^verbatim>\<open>NODE_ENV\<close> set to \<^verbatim>\<open>test\<close> the response to a failed insert has no
  \<^verbatim>\<open>debug\<close> field. And in production mode one error response does carry the message
  of an exception: the 500 of the health check, when its probe throws.
\<close>

theorem debug_field_counterexample:
  "validateContactForm (body example_request) = None
   \<and> \<not> production_mode (example_env (Some (js ''test'')) database_down (\<lambda>mail. Delivered) AdminMail)
   \<and> responses (contact_handler
        (example_env (Some (js ''test'')) database_down (\<lambda>mail. Delivered) AdminMail)
        example_request) = [DatabaseError None]
   \<and> production_mode
        (example_env (Some (js ''production'')) database_down (\<lambda>mail. Delivered) AdminMail)
   \<and> responses (app
        (example_server
           (example_env (Some (js ''production'')) database_down (\<lambda>mail. Delivered) AdminMail)
           True True (ProbeRejects (js ''connect ECONNREFUSED 10.0.0.5:5432'')))
        (example_http GetHealth (js ''/api/health'') NoBody)) =
       [HealthError (js ''2024-05-01T12:00:00.000Z'') 42
          (js ''connect ECONNREFUSED 10.0.0.5:5432'')]"
  using handler_db_error
    [OF example_fields,
     of "example_env (Some (js ''test'')) database_down (\<lambda>mail. Delivered) AdminMail"
        "\<lparr>data = None, error = Some \<lparr>message = js ''connection refused''\<rparr>\<rparr>"
        "\<lparr>message = js ''connection refused''\<rparr>"]
  by (simp add: example_env_simps database_down_def example_valid production_mode_def
      test_not_development app_def get_api_health_def example_http_simps
      example_server_simps HealthError_def)

text \<open>
  C7, amended. For every persistence failure of a submission (the insert reports an
  error), the response is \<open>DatabaseError\<close> with the raw datastore message as its
  \<^verbatim>\<open>debug\<close> field exactly when \<^verbatim>\<open>NODE_ENV\<close> is \<^verbatim>\<open>development\<close>, and without
  a \<^verbatim>\<open>debug\<close> field otherwise; a valid submission that passes both rate limiters is
  answered by the handler. In production mode, every error response of the application
  other than the 500 of the health check is one of the error responses whose text is
  fixed in the source, with no \<^verbatim>\<open>debug\<close> field, or the 404 that quotes the URL of
  the request.
\<close>

theorem debug_field_only_in_development:
  "(form.name (body req) = Some n \<and> form.email (body req) = Some e
      \<and> form.subject (body req) = Some s \<and> form.message (body req) = Some m
      \<and> db_insert env (newMessage env req n e s m) = Resolves result \<and> error result = Some err
    \<longrightarrow> responses (contact_handler env req) =
          [DatabaseError (if NODE_ENV env = Some (js ''development'')
                          then Some (db_error.message err) else None)])
   \<and> (route h = PostContact \<and> parsed h = Parsed b \<and> limiter_allows srv
      \<and> contactLimiter_allows srv \<and> validateContactForm b = None
    \<longrightarrow> app srv h = contact_handler (handler_env srv) (contact_request h b))
   \<and> (production_mode (handler_env srv)
    \<longrightarrow> list_all (\<lambda>r. r \<in> set fixed_responses \<or> r = NotFoundError (originalUrl h)
            \<or> (\<exists>generated. r = Success generated (now (handler_env srv)))
            \<or> (\<exists>rows. r = Listing rows)
            \<or> (route h = GetHealth
                \<and> (response.status r = 200
                    \<or> (\<exists>exception_message.
                          r = HealthError (now (handler_env srv)) (uptime srv)
                                exception_message))))
          (responses (app srv h)))"
proof (intro conjI impI)
  assume "form.name (body req) = Some n \<and> form.email (body req) = Some e
      \<and> form.subject (body req) = Some s \<and> form.message (body req) = Some m
      \<and> db_insert env (newMessage env req n e s m) = Resolves result \<and> error result = Some err"
  then show "responses (contact_handler env req) =
          [DatabaseError (if NODE_ENV env = Some (js ''development'')
                          then Some (db_error.message err) else None)]"
    by (simp add: handler_db_error)
next
  assume "route h = PostContact \<and> parsed h = Parsed b \<and> limiter_allows srv
      \<and> contactLimiter_allows srv \<and> validateContactForm b = None"
  then show "app srv h = contact_handler (handler_env srv) (contact_request h b)"
    by (simp add: app_def post_api_contact_def)
next
  assume "production_mode (handler_env srv)"
  then show "list_all (\<lambda>r. r \<in> set fixed_responses \<or> r = NotFoundError (originalUrl h)
            \<or> (\<exists>generated. r = Success generated (now (handler_env srv)))
            \<or> (\<exists>rows. r = Listing rows)
            \<or> (route h = GetHealth
                \<and> (response.status r = 200
                    \<or> (\<exists>exception_message.
                          r = HealthError (now (handler_env srv)) (uptime srv)
                                exception_message))))
          (responses (app srv h))"
    using app_responses_production by blast
qed

theorem debug_field_only_in_development_witness:
  "responses (contact_handler
      (example_env (Some (js ''development'')) database_down (\<lambda>mail. Delivered) AdminMail)
      example_request) = [DatabaseError (Some (js ''connection refused''))]
   \<and> app (example_server
        (example_env (Some (js ''production'')) database_down (\<lambda>mail. Delivered) AdminMail)
        True True (ProbeResolves None))
        (example_http PostContact (js ''/api/contact'') (Parsed example_form)) =
      contact_handler
        (example_env (Some (js ''production'')) database_down (\<lambda>mail. Delivered) AdminMail)
        example_request
   \<and> production_mode
        (example_env (Some (js ''production'')) database_down (\<lambda>mail. Delivered) AdminMail)
   \<and> list_all (\<lambda>r. r \<in> set fixed_responses \<or> r = NotFoundError (js ''/api/contact'')
          \<or> (\<exists>generated. r = Success generated (js ''2024-05-01T12:00:00.000Z''))
          \<or> (\<exists>rows. r = Listing rows))
        (responses (app (example_server
           (example_env (Some (js ''production'')) database_down (\<lambda>mail. Delivered) AdminMail)
           True True (ProbeResolves None))
           (example_http PostContact (js ''/api/contact'') NoBody)))"
  using debug_field_only_in_development
    [of example_request "js '' Ada Lovelace ''" "js ''Ada@Example.com''" "js ''Hello there''"
        "js ''I would like to talk.''"
        "example_env (Some (js ''development'')) database_down (\<lambda>mail. Delivered) AdminMail"
        "\<lparr>data = None, error = Some \<lparr>message = js ''connection refused''\<rparr>\<rparr>"
        "\<lparr>message = js ''connection refused''\<rparr>"
        "example_http PostContact (js ''/api/contact'') (Parsed example_form)" example_form
        "example_server
           (example_env (Some (js ''production'')) database_down (\<lambda>mail. Delivered) AdminMail)
           True True (ProbeResolves None)"]
    debug_field_only_in_development
    [of example_request _ _ _ _ _ _ _
        "example_http PostContact (js ''/api/contact'') NoBody" _
        "example_server
           (example_env (Some (js ''production'')) database_down (\<lambda>mail. Delivered) AdminMail)
           True True (ProbeResolves None)"]
  by (simp add: example_fields example_env_simps database_down_def production_mode_def
      example_http_simps example_server_simps example_contact_request example_valid_form)

text \<open>
  C8, as the source has it. The claim that control returns only after both sends have
  settled fails: when the admin send settles first and fails, the handler logs the
  failure and responds while the send to the submitter is still pending.
\<close>

theorem notifier_counterexample:
  "validateContactForm (body example_request) = None
   \<and> snd (sendEmails (example_env None (stored (Some [example_row])) relay_down AdminMail)
        example_request (js '' Ada Lovelace '') (js ''Ada@Example.com'') (js ''Hello there'')
        (js ''I would like to talk.'')) = [Settled UserMail (Failed (js ''ECONNREFUSED''))]
   \<and> drop 6 (contact_handler
        (example_env None (stored (Some [example_row])) relay_down AdminMail) example_request) =
       [Respond (Success (js ''7f3c'') (js ''2024-05-01T12:00:00.000Z'')),
        Settled UserMail (Failed (js ''ECONNREFUSED''))]"
  using handler_db_ok
    [OF example_fields,
     of "example_env None (stored (Some [example_row])) relay_down AdminMail"
        "\<lparr>data = Some [example_row], error = None\<rparr>"]
  by (simp add: example_env_simps stored_def relay_down_def example_valid sendEmails_def
      settlements_def)
     (simp add: example_row_def)

text \<open>
  C8, amended. Both sends are called before either is awaited, each whatever the outcome
  of the other. Control returns when both have been delivered, or as soon as a failure
  settles: if the send that settles first fails, control returns while the other is
  still pending; if it is delivered, control returns when the second has settled. When
  at least one send fails, exactly one failure reaches the handler, which logs it once.
\<close>

theorem notifier_returns_at_first_failure:
  assumes "adminMail = adminMailOptions env (now env) (clientIp req) n e s m"
    and "userMail = userMailOptions env (now env) n e s"
    and "first = settles_first env" and "second = other first"
    and "o1 = outcome_of env adminMail userMail first"
    and "o2 = outcome_of env adminMail userMail second"
  shows "sendEmails env req n e s m =
    (case o1 of
       Failed reason \<Rightarrow>
         ([CreateTransport, SendMail AdminMail adminMail, SendMail UserMail userMail,
           Settled first (Failed reason), ConsoleError ''Email error:''],
          [Settled second o2])
     | Delivered \<Rightarrow>
         (case o2 of
            Failed reason \<Rightarrow>
              ([CreateTransport, SendMail AdminMail adminMail, SendMail UserMail userMail,
                Settled first Delivered, Settled second (Failed reason),
                ConsoleError ''Email error:''],
               [])
          | Delivered \<Rightarrow>
              ([CreateTransport, SendMail AdminMail adminMail, SendMail UserMail userMail,
                Settled first Delivered, Settled second Delivered],
               [])))"
  using assms
  by (simp add: sendEmails_def settlements_eq split: mail_outcome.splits)

theorem notifier_returns_at_first_failure_witness:
  "sendEmails (example_env None (stored (Some [example_row])) relay_down AdminMail)
     example_request (js '' Ada Lovelace '') (js ''Ada@Example.com'') (js ''Hello there'')
     (js ''I would like to talk.'') =
   ([CreateTransport,
     SendMail AdminMail
       (adminMailOptions (example_env None (stored (Some [example_row])) relay_down AdminMail)
          (js ''2024-05-01T12:00:00.000Z'') (Some (js ''203.0.113.7''))
          (js '' Ada Lovelace '') (js ''Ada@Example.com'') (js ''Hello there'')
          (js ''I would like to talk.'')),
     SendMail UserMail
       (userMailOptions (example_env None (stored (Some [example_row])) relay_down AdminMail)
          (js ''2024-05-01T12:00:00.000Z'')
          (js '' Ada Lovelace '') (js ''Ada@Example.com'') (js ''Hello there'')),
     Settled AdminMail (Failed (js ''ECONNREFUSED'')),
     ConsoleError ''Email error:''],
    [Settled UserMail (Failed (js ''ECONNREFUSED''))])"
  using notifier_returns_at_first_failure
    [OF refl refl refl refl refl refl,
     of "example_env None (stored (Some [example_row])) relay_down AdminMail" example_request
        "js '' Ada Lovelace ''" "js ''Ada@Example.com''" "js ''Hello there''"
        "js ''I would like to talk.''"]
  by (simp add: example_env_simps relay_down_def outcome_of_def other_def example_normalised)

text \<open>
  C9. The validator bounds the length of the raw fields and the handler trims them
  before the insert: a submission whose name, subject and message are one non-space
  code unit followed by spaces up to an accepted length is valid, and the row handed
  to the datastore has a name, a subject and a message of one code unit, below the
  minimum of 2, 5 and 10.
\<close>

theorem stored_fields_shorter_than_minimum:
  assumes "\<not> isWhiteSpace c" and "test emailRegex e"
    and "1 \<le> i" "i \<le> 99" and "4 \<le> j" "j \<le> 199" and "9 \<le> k" "k \<le> 1999"
    and "body req = \<lparr>form.name = Some (c # replicate i 0x20), email = Some e,
                     subject = Some (c # replicate j 0x20),
                     message = Some (c # replicate k 0x20)\<rparr>"
  shows "validateContactForm (body req) = None
    \<and> (\<exists>row. inserts (contact_handler env req) = [row]
          \<and> contact_message.name row = [c] \<and> contact_message.subject row = [c]
          \<and> contact_message.message row = [c])"
proof -
  have v: "validateContactForm (body req) = None"
    using assms test_emailRegex_Nil by (auto simp: validate_present)
  have f: "form.name (body req) = Some (c # replicate i 0x20)" "form.email (body req) = Some e"
    "form.subject (body req) = Some (c # replicate j 0x20)"
    "form.message (body req) = Some (c # replicate k 0x20)"
    using assms(9) by simp_all
  have "inserts (contact_handler env req) =
      [newMessage env req (c # replicate i 0x20) e (c # replicate j 0x20) (c # replicate k 0x20)]"
  proof (cases "db_insert env (newMessage env req (c # replicate i 0x20) e
      (c # replicate j 0x20) (c # replicate k 0x20))")
    case Rejects
    then show ?thesis by (simp add: handler_rejects [OF f])
  next
    case (Resolves result)
    show ?thesis
    proof (cases "error result")
      case None
      show ?thesis
        by (simp add: handler_db_ok [OF f Resolves None] inserts_append sendEmails_inserts
            split: option.splits list.splits)
    next
      case (Some err)
      show ?thesis by (simp add: handler_db_error [OF f Resolves Some])
    qed
  qed
  with v show ?thesis
    by (simp add: newMessage_def trim_padded [OF assms(1)])
qed

theorem stored_fields_shorter_than_minimum_witness:
  "validateContactForm (body padded_request) = None
   \<and> (\<exists>row. inserts (contact_handler
          (example_env None (stored (Some [example_row])) (\<lambda>mail. Delivered) AdminMail)
          padded_request) = [row]
        \<and> contact_message.name row = js ''a'' \<and> length (contact_message.name row) < 2
        \<and> contact_message.subject row = js ''a'' \<and> length (contact_message.subject row) < 5
        \<and> contact_message.message row = js ''a'' \<and> length (contact_message.message row) < 10)"
proof -
  have ws: "\<not> isWhiteSpace 0x61"
    by (simp add: isWhiteSpace_def)
  have b: "body padded_request =
      \<lparr>form.name = Some (0x61 # replicate 1 0x20), email = Some (js ''a@b.co''),
       subject = Some (0x61 # replicate 4 0x20), message = Some (0x61 # replicate 9 0x20)\<rparr>"
    by (simp add: padded_request_def)
  from stored_fields_shorter_than_minimum
    [OF ws test_short_address _ _ _ _ _ _ b,
     of "example_env None (stored (Some [example_row])) (\<lambda>mail. Delivered) AdminMail"]
  show ?thesis
    by (auto simp: js_def)
qed

text \<open>
  C10. For every valid submission whose insert reports no error: when the returned row
  list is not empty, the response is the 200 success with the id of its first row; when
  the row list is null or empty, reading the id throws, the catch-all boundary logs the
  exception and the only response is 500 \<open>ServerError\<close>, although the insert has been
  called.
\<close>

theorem first_row_id_or_catch_all:
  assumes "validateContactForm (body req) = None"
    and "form.name (body req) = Some n" and "form.email (body req) = Some e"
    and "form.subject (body req) = Some s" and "form.message (body req) = Some m"
    and "db_insert env (newMessage env req n e s m) = Resolves result"
    and "error result = None"
  shows "(\<forall>row rows. data result = Some (row # rows) \<longrightarrow>
            responses (contact_handler env req) = [Success (id' row) (now env)])
       \<and> (data result = None \<or> data result = Some [] \<longrightarrow>
            responses (contact_handler env req) = [ServerError]
            \<and> inserts (contact_handler env req) = [newMessage env req n e s m]
            \<and> ConsoleError ''Contact form error:'' \<in> set (contact_handler env req))"
proof -
  have i: "inserts (contact_handler env req) = [newMessage env req n e s m]"
    by (simp add: handler_db_ok [OF assms(2-7)] inserts_append sendEmails_inserts
        split: option.splits list.splits)
  have c: "ConsoleError ''Contact form error:'' \<in> set (contact_handler env req)"
    if "data result = None \<or> data result = Some []"
    using that by (auto simp: handler_db_ok [OF assms(2-7)])
  from i c show ?thesis
    by (auto simp: handler_db_ok_responses [OF assms(2-7)])
qed

theorem first_row_id_or_catch_all_witness:
  "validateContactForm (body example_request) = None
   \<and> responses (contact_handler
        (example_env None (stored (Some [])) (\<lambda>mail. Delivered) AdminMail) example_request) =
       [ServerError]
   \<and> responses (contact_handler
        (example_env None (stored None) (\<lambda>mail. Delivered) AdminMail) example_request) =
       [ServerError]
   \<and> responses (contact_handler
        (example_env None (stored (Some [example_row])) (\<lambda>mail. Delivered) AdminMail)
        example_request) = [Success (js ''7f3c'') (js ''2024-05-01T12:00:00.000Z'')]"
  using
    first_row_id_or_catch_all
      [OF example_valid example_fields,
       of "example_env None (stored (Some [])) (\<lambda>mail. Delivered) AdminMail"
          "\<lparr>data = Some [], error = None\<rparr>"]
    first_row_id_or_catch_all
      [OF example_valid example_fields,
       of "example_env None (stored None) (\<lambda>mail. Delivered) AdminMail"
          "\<lparr>data = None, error = None\<rparr>"]
    first_row_id_or_catch_all
      [OF example_valid example_fields,
       of "example_env None (stored (Some [example_row])) (\<lambda>mail. Delivered) AdminMail"
          "\<lparr>data = Some [example_row], error = None\<rparr>"]
  by (simp add: example_env_simps stored_def example_valid)
     (simp add: example_row_def)

end
